theory Spec2Isabelle
  imports Complex_Main
begin

section \<open>Data model\<close>

text \<open>
  The monitor polls the public status pages of three services, classifies every answer
  into a verdict and keeps the latest record per service in memory.  This theory embeds
  the polling engine of the server module (\<open>checkToolStatus\<close>, source lines 77 to 186,
  and \<open>checkAllToolsStatus\<close>, lines 188 to 267) together with the store it writes (lines
  57 to 64), and proves the properties stated for it.

  The types below follow the declarations at the head of the module (lines 13 to 46):
  \<open>ToolId\<close>, \<open>ToolStatus\<close>, \<open>ToolConfig\<close> and the registry \<open>toolConfigs\<close>.  The field names
  of the three records are kept apart by a prefix (\<open>t\<close> for a stored record, \<open>c\<close> for a
  registry entry).  A latency is an integer number of milliseconds or null.
\<close>

datatype ToolId = Cursor | Chatgpt | Claude

datatype Verdict = Healthy | Degraded | Down | Unknown

text \<open>
  Values produced by \<open>response.json()\<close>.  The body is typed \<open>any\<close> in the source, so the
  fields read from it are arbitrary JavaScript values; \<open>JUndefined\<close> is the result of reading
  an absent property and the value of an absent optional field.  A number is kept by its
  value: a finite double is a rational, and the parser can overflow to an infinity.
  An object is the list of its own properties (keys unique, as the parser leaves them).
\<close>

datatype jnum = Finite rat | PosInfinity | NegInfinity

datatype jsval =
    JUndefined
  | JNull
  | JBool bool
  | JNum jnum
  | JStr string
  | JArr "jsval list"
  | JObj "(string \<times> jsval) list"

record ToolStatus =
  tid :: ToolId
  tname :: string
  tstatus :: Verdict
  lastChecked :: string
  tlatencyMs :: "int option"
  terror :: jsval

record ToolConfig =
  cid :: ToolId
  cname :: string
  statusUrl :: string

text \<open>The value returned by one poll: \<open>{ status, latencyMs, error? }\<close>.\<close>

record PollOutcome =
  status :: Verdict
  latencyMs :: "int option"
  error :: jsval

definition toolConfigs :: "ToolConfig list" where
  "toolConfigs =
     [\<lparr>cid = Chatgpt, cname = ''ChatGPT'',
        statusUrl = ''https://status.openai.com/api/v2/status.json''\<rparr>,
      \<lparr>cid = Claude, cname = ''Claude'',
        statusUrl = ''https://status.claude.com/api/v2/status.json''\<rparr>,
      \<lparr>cid = Cursor, cname = ''Cursor'',
        statusUrl = ''https://status.cursor.com/api/v2/status.json''\<rparr>]"

definition CHECK_DELAY_MS :: nat where
  "CHECK_DELAY_MS = 2000"

definition MAX_RETRIES :: nat where
  "MAX_RETRIES = 2"

section \<open>JavaScript primitives used by the poller\<close>

text \<open>Truthiness, as tested by \<open>||\<close>, \<open>!!\<close> and \<open>if\<close>.\<close>

fun truthy :: "jsval \<Rightarrow> bool" where
  "truthy JUndefined = False"
| "truthy JNull = False"
| "truthy (JBool b) = b"
| "truthy (JNum (Finite r)) = (r \<noteq> 0)"
| "truthy (JNum PosInfinity) = True"
| "truthy (JNum NegInfinity) = True"
| "truthy (JStr s) = (s \<noteq> [])"
| "truthy (JArr xs) = True"
| "truthy (JObj kvs) = True"

text \<open>\<open>a || b\<close>\<close>

definition js_or :: "jsval \<Rightarrow> jsval \<Rightarrow> jsval" where
  "js_or a b = (if truthy a then a else b)"

text \<open>
  A thrown value.  The handlers only distinguish \<open>error instanceof Error\<close> (and then read
  \<open>error.message\<close>) from any other value (and then at most take \<open>String(error)\<close>).
\<close>

datatype thrown = ErrorObject string | NonError string

text \<open>
  Reading one of the properties \<open>status\<close>, \<open>indicator\<close>, \<open>description\<close>: a TypeError on
  \<open>null\<close> and \<open>undefined\<close>, the stored value on an object that has the key, and
  \<open>undefined\<close> otherwise (no string, number, boolean or array has a property of these names).
\<close>

fun get_prop :: "jsval \<Rightarrow> string \<Rightarrow> thrown + jsval" where
  "get_prop JUndefined k = Inl (ErrorObject ''Cannot read properties of undefined'')"
| "get_prop JNull k = Inl (ErrorObject ''Cannot read properties of null'')"
| "get_prop (JObj kvs) k = Inr (case map_of kvs k of None \<Rightarrow> JUndefined | Some v \<Rightarrow> v)"
| "get_prop v k = Inr JUndefined"

text \<open>Optional chaining \<open>v?.k\<close>: \<open>undefined\<close> when \<open>v\<close> is \<open>null\<close> or \<open>undefined\<close>.\<close>

fun get_prop_opt :: "jsval \<Rightarrow> string \<Rightarrow> jsval" where
  "get_prop_opt JUndefined k = JUndefined"
| "get_prop_opt JNull k = JUndefined"
| "get_prop_opt v k = (case get_prop v k of Inl e \<Rightarrow> JUndefined | Inr w \<Rightarrow> w)"

text \<open>\<open>s.startsWith(sub)\<close> and \<open>s.includes(sub)\<close>\<close>

fun startsWith :: "string \<Rightarrow> string \<Rightarrow> bool" where
  "startsWith s [] = True"
| "startsWith [] (c # sub) = False"
| "startsWith (d # s) (c # sub) = (d = c \<and> startsWith s sub)"

fun str_includes :: "string \<Rightarrow> string \<Rightarrow> bool" where
  "str_includes [] sub = (sub = [])"
| "str_includes (d # s) sub = (startsWith (d # s) sub \<or> str_includes s sub)"

text \<open>Decimal rendering of a non-negative integer, as a template literal inserts it.\<close>

definition digit_char :: "nat \<Rightarrow> char" where
  "digit_char d = char_of (48 + d)"

fun str_of_nat :: "nat \<Rightarrow> string" where
  "str_of_nat n = (if n < 10 then [digit_char n] else str_of_nat (n div 10) @ [digit_char (n mod 10)])"

declare str_of_nat.simps [simp del]

section \<open>One poll: \<open>checkToolStatus\<close>\<close>

text \<open>
  What the network does at one attempt is an input of the model.  Either \<open>fetch\<close> resolves
  with a response, of which the code reads the status code, the result of \<open>response.json()\<close>
  (\<open>None\<close> when it rejects) and the elapsed time \<open>Date.now() - startTime\<close>; or the attempt
  throws (the abort at the 10 s timeout included).
\<close>

datatype attempt =
    Responded nat "jsval option" int
  | Rejected thrown

text \<open>The observable effects, in the order they happen.\<close>

datatype event =
    Fetch string
  | Delay nat
  | RecordCustomEvent ToolId string Verdict int bool
  | ConsoleErrorOutcome string ToolId Verdict jsval "int option"
  | NoticeError string jsval ToolId Verdict int jsval
  | ConsoleErrorThrown string thrown

text \<open>\<open>response.ok\<close>\<close>

definition response_ok :: "nat \<Rightarrow> bool" where
  "response_ok st = (200 \<le> st \<and> st \<le> 299)"

text \<open>
  The body of the inner \<open>try\<close> (lines 105 to 138), once \<open>response.json()\<close> has resolved
  with \<open>data\<close>.  Reading \<open>data.status\<close> can throw; nothing else in the block can.
\<close>

definition classify_data :: "jsval \<Rightarrow> int \<Rightarrow> thrown + PollOutcome" where
  "classify_data data latency =
     (case get_prop data ''status'' of
        Inl e \<Rightarrow> Inl e
      | Inr st \<Rightarrow>
          let indicator = get_prop_opt st ''indicator'';
              description = js_or (get_prop_opt st ''description'') (JStr '''')
          in
            if indicator = JStr ''none'' then
              Inr \<lparr>status = (if latency > 2000 then Degraded else Healthy),
                   latencyMs = Some latency, error = JUndefined\<rparr>
            else if indicator = JStr ''minor'' then
              Inr \<lparr>status = Degraded, latencyMs = Some latency,
                   error = js_or description (JStr ''Minor service outage'')\<rparr>
            else if indicator = JStr ''major'' \<or> indicator = JStr ''critical'' then
              Inr \<lparr>status = Down, latencyMs = Some latency,
                   error = js_or description
                     (JStr (''Service status: '' @ (case indicator of JStr s \<Rightarrow> s | _ \<Rightarrow> [])))\<rparr>
            else if indicator = JStr ''partial'' then
              Inr \<lparr>status = Degraded, latencyMs = Some latency,
                   error = js_or description (JStr ''Partial outage detected'')\<rparr>
            else
              Inr \<lparr>status = (if latency > 2000 then Degraded else Healthy),
                   latencyMs = Some latency, error = JUndefined\<rparr>)"

text \<open>
  The classification of a response (lines 103 to 158).  Whatever the inner \<open>try\<close> throws,
  the rejection of \<open>response.json()\<close> included, is caught by the inner \<open>catch\<close>.
\<close>

definition classify_response :: "nat \<Rightarrow> jsval option \<Rightarrow> int \<Rightarrow> PollOutcome" where
  "classify_response st body latency =
     (if response_ok st then
        (case (case body of None \<Rightarrow> Inl (ErrorObject ''Unexpected token'')
                          | Some data \<Rightarrow> classify_data data latency) of
           Inr r \<Rightarrow> r
         | Inl e \<Rightarrow> \<lparr>status = Unknown, latencyMs = Some latency,
                      error = JStr ''Failed to parse status API response''\<rparr>)
      else if st = 429 then
        \<lparr>status = Degraded, latencyMs = Some latency,
         error = JStr ''Rate limited - too many requests''\<rparr>
      else if st \<ge> 500 then
        \<lparr>status = Down, latencyMs = Some latency,
         error = JStr (''Server error: '' @ str_of_nat st)\<rparr>
      else
        \<lparr>status = Down, latencyMs = Some latency, error = JStr (''HTTP '' @ str_of_nat st)\<rparr>)"

text \<open>\<open>error instanceof Error ? error.message : String(error)\<close>\<close>

fun errorMessage :: "thrown \<Rightarrow> string" where
  "errorMessage (ErrorObject m) = m"
| "errorMessage (NonError s) = s"

text \<open>The text kept in \<open>lastError\<close> (lines 164 to 171).\<close>

definition lastError :: "string \<Rightarrow> string" where
  "lastError msg =
     (if str_includes msg ''aborted'' \<or> str_includes msg ''timeout'' then ''Request timeout''
      else if str_includes msg ''ECONNREFUSED'' \<or> str_includes msg ''ENOTFOUND'' then ''Connection failed''
      else msg)"

text \<open>
  \<open>checkToolStatus(config, retryCount)\<close>.  \<open>net k\<close> is what the network does at the attempt
  made with \<open>retryCount = k\<close>.  The result is the outcome and the effects of the call: a
  request per attempt, and the wait \<open>delay(1000 * (retryCount + 1))\<close> before the recursive
  call (lines 174 to 177).  The recursion ends because \<open>retryCount\<close> grows up to
  \<open>MAX_RETRIES\<close>.
\<close>

function checkToolStatus :: "ToolConfig \<Rightarrow> (nat \<Rightarrow> attempt) \<Rightarrow> nat \<Rightarrow> PollOutcome \<times> event list" where
  "checkToolStatus config net retryCount =
     (case net retryCount of
        Responded st body latency \<Rightarrow>
          (classify_response st body latency, [Fetch (statusUrl config)])
      | Rejected err \<Rightarrow>
          let le = lastError (errorMessage err) in
            if retryCount < MAX_RETRIES then
              (let (r, evs) = checkToolStatus config net (retryCount + 1)
               in (r, Fetch (statusUrl config) # Delay (1000 * (retryCount + 1)) # evs))
            else if str_includes le ''Rate limited'' \<or> str_includes le ''429'' then
              (\<lparr>status = Degraded, latencyMs = None, error = JStr le\<rparr>,
               [Fetch (statusUrl config)])
            else
              (\<lparr>status = Down, latencyMs = None, error = JStr le\<rparr>,
               [Fetch (statusUrl config)]))"
  by pat_completeness auto
termination
  by (relation "measure (\<lambda>(config, net, retryCount). MAX_RETRIES - retryCount)") auto

declare checkToolStatus.simps [simp del]

section \<open>One sweep: \<open>checkAllToolsStatus\<close>\<close>

text \<open>
  The store \<open>tools\<close> is built once from the registry, every record \<open>unknown\<close> with no
  latency; \<open>start c\<close> is the time read while the record of \<open>c\<close> is built.
\<close>

definition tools_init :: "(ToolConfig \<Rightarrow> string) \<Rightarrow> ToolStatus list" where
  "tools_init start =
     map (\<lambda>config. \<lparr>tid = cid config, tname = cname config, tstatus = Unknown,
                     lastChecked = start config, tlatencyMs = None, terror = JUndefined\<rparr>)
       toolConfigs"

text \<open>\<open>xs.findIndex(p)\<close>: the first index whose element satisfies \<open>p\<close>, or \<open>-1\<close>.\<close>

fun findIndex :: "('a \<Rightarrow> bool) \<Rightarrow> 'a list \<Rightarrow> int" where
  "findIndex p [] = - 1"
| "findIndex p (x # xs) =
     (if p x then 0 else (let r = findIndex p xs in if r < 0 then - 1 else r + 1))"

text \<open>
  What the surroundings do while one target is processed.  The call of \<open>checkToolStatus\<close>
  either runs against a network behaviour, and then returns an outcome whatever the
  network does; or it rejects with a value, after the requests and waits it has made up to
  then (the case the \<open>catch\<close> of the sweep is written for).  The poller catches every value
  thrown from its \<open>try\<close> on, so it can reject only outside of it: when reading the clock
  throws (line 83), or when its own \<open>catch\<close> block throws on the value it caught (lines 160
  to 171).  \<open>clock\<close> is the time read by \<open>new Date().toISOString()\<close> when the record is
  written.  The telemetry and console calls are taken to return normally.
\<close>

datatype poll_env = PollRuns "nat \<Rightarrow> attempt" | PollRejects "event list" thrown

record TargetEnv =
  poll :: poll_env
  clock :: string

record SweepState =
  tools :: "ToolStatus list"
  trace :: "event list"

text \<open>
  The record built from a poll outcome (\<open>updatedTool\<close>), and the record the \<open>catch\<close> of the
  sweep puts in place of the one it finds: a copy of it with three fields replaced.
\<close>

definition updatedTool :: "ToolConfig \<Rightarrow> PollOutcome \<Rightarrow> string \<Rightarrow> ToolStatus" where
  "updatedTool config result now =
     \<lparr>tid = cid config, tname = cname config, tstatus = status result, lastChecked = now,
      tlatencyMs = latencyMs result, terror = error result\<rparr>"

definition failedTool :: "ToolStatus \<Rightarrow> thrown \<Rightarrow> string \<Rightarrow> ToolStatus" where
  "failedTool found e now =
     found\<lparr>tstatus := Unknown, lastChecked := now,
           terror := JStr (case e of ErrorObject m \<Rightarrow> m | NonError v \<Rightarrow> ''Unknown error'')\<rparr>"

text \<open>
  The body of the \<open>for\<close> loop at index \<open>i\<close> (lines 191 to 265).  The events of the
  \<open>try\<close> block are the poll's own, the custom event, the error line and the incident
  report when their conditions hold, and the pacing delay, which is the last statement
  of the \<open>try\<close> block.  The \<open>catch\<close> block writes its error line and updates the record
  found by \<open>findIndex\<close>.
\<close>

definition sweep_iteration ::
    "ToolConfig list \<Rightarrow> (nat \<Rightarrow> TargetEnv) \<Rightarrow> nat \<Rightarrow> SweepState \<Rightarrow> SweepState" where
  "sweep_iteration cfgs env i s =
     (let config = cfgs ! i;
          existingTool = find (\<lambda>t. tid t = cid config) (tools s)
      in case poll (env i) of
           PollRuns net \<Rightarrow>
             (let (result, evs) = checkToolStatus config net 0;
                  oldStatus = (case existingTool of None \<Rightarrow> Unknown | Some t \<Rightarrow> tstatus t);
                  new = updatedTool config result (clock (env i));
                  toolIndex = findIndex (\<lambda>t. tid t = cid config) (tools s);
                  tools' = (if toolIndex \<ge> 0 then (tools s)[nat toolIndex := new]
                            else tools s @ [new]);
                  latency0 = (case tlatencyMs new of None \<Rightarrow> 0 | Some l \<Rightarrow> l);
                  recorded = [RecordCustomEvent (tid new) (tname new) (tstatus new) latency0
                                (truthy (terror new))];
                  logged =
                    (if status result = Down \<or> truthy (error result) then
                       ConsoleErrorOutcome (tname new) (tid new) (status result) (error result)
                           (tlatencyMs new)
                         # (if status result = Down then
                              [NoticeError (tname new) (js_or (terror new) (JStr ''Unknown error''))
                                 (tid new) oldStatus latency0 (terror new)]
                            else [])
                     else []);
                  paced = (if int i < int (length cfgs) - 1 then [Delay CHECK_DELAY_MS] else [])
              in \<lparr>tools = tools', trace = trace s @ evs @ recorded @ logged @ paced\<rparr>)
         | PollRejects pre e \<Rightarrow>
             (let toolIndex = findIndex (\<lambda>t. tid t = cid config) (tools s);
                  tools' =
                    (if toolIndex \<ge> 0 then
                       (tools s)[nat toolIndex :=
                          failedTool (tools s ! nat toolIndex) e (clock (env i))]
                     else tools s)
              in \<lparr>tools = tools',
                  trace = trace s @ pre @ [ConsoleErrorThrown (cname config) e]\<rparr>))"

text \<open>The \<open>for\<close> loop from index \<open>i\<close> on.\<close>

function sweep_from ::
    "ToolConfig list \<Rightarrow> (nat \<Rightarrow> TargetEnv) \<Rightarrow> nat \<Rightarrow> SweepState \<Rightarrow> SweepState" where
  "sweep_from cfgs env i s =
     (if i < length cfgs then sweep_from cfgs env (i + 1) (sweep_iteration cfgs env i s) else s)"
  by pat_completeness auto
termination
  by (relation "measure (\<lambda>(cfgs, env, i, s). length cfgs - i)") auto

declare sweep_from.simps [simp del]

definition checkAllToolsStatus :: "(nat \<Rightarrow> TargetEnv) \<Rightarrow> ToolStatus list \<Rightarrow> SweepState" where
  "checkAllToolsStatus env ts = sweep_from toolConfigs env 0 \<lparr>tools = ts, trace = []\<rparr>"

text \<open>
  The stores the process can hold: the initial one, and any store left by one more
  iteration of a sweep, whatever the surroundings do.
\<close>

inductive reachable :: "ToolStatus list \<Rightarrow> bool" where
  reachable_init: "reachable (tools_init start)"
| reachable_iteration:
    "reachable ts \<Longrightarrow> i < length toolConfigs \<Longrightarrow>
     reachable (tools (sweep_iteration toolConfigs env i \<lparr>tools = ts, trace = tr\<rparr>))"

text \<open>The telemetry and log calls among the effects.\<close>

fun is_telemetry :: "event \<Rightarrow> bool" where
  "is_telemetry (Fetch u) = False"
| "is_telemetry (Delay ms) = False"
| "is_telemetry e = True"

text \<open>Reading a trace: the attempts made and the delays waited, in order.\<close>

fun is_fetch :: "event \<Rightarrow> bool" where
  "is_fetch (Fetch u) = True"
| "is_fetch e = False"

fun delays_of :: "event list \<Rightarrow> nat list" where
  "delays_of [] = []"
| "delays_of (Delay ms # es) = ms # delays_of es"
| "delays_of (e # es) = delays_of es"

definition attempts_of :: "event list \<Rightarrow> nat" where
  "attempts_of es = length (filter is_fetch es)"

text \<open>The requests and waits of a trace, without the telemetry and log calls.\<close>

definition waits_and_requests :: "event list \<Rightarrow> event list" where
  "waits_and_requests es = filter (\<lambda>e. \<not> is_telemetry e) es"

section \<open>Notions used to state the properties of a sweep\<close>

text \<open>
  The store is aligned with the registry: record \<open>j\<close> carries the identifier and the
  display name of target \<open>j\<close>.
\<close>

definition aligned :: "ToolConfig list \<Rightarrow> ToolStatus list \<Rightarrow> bool" where
  "aligned cfgs ts = (map tid ts = map cid cfgs \<and> map tname ts = map cname cfgs)"

text \<open>
  The record one iteration leaves for its target, given the record it finds there.
\<close>

definition written :: "ToolConfig list \<Rightarrow> (nat \<Rightarrow> TargetEnv) \<Rightarrow> nat \<Rightarrow> ToolStatus \<Rightarrow> ToolStatus" where
  "written cfgs env j found =
     (case poll (env j) of
        PollRuns net \<Rightarrow>
          updatedTool (cfgs ! j) (fst (checkToolStatus (cfgs ! j) net 0)) (clock (env j))
      | PollRejects pre e \<Rightarrow> failedTool found e (clock (env j)))"

section \<open>Scenarios\<close>

text \<open>
  Concrete surroundings on which the theorems are instantiated: status-page bodies, a
  start time, and what each target's poll does during one sweep.
\<close>

definition operational :: jsval where
  "operational = JObj [(''status'', JObj [(''indicator'', JStr ''none''),
                         (''description'', JStr ''All Systems Operational'')])]"

definition scenario_start :: "ToolConfig \<Rightarrow> string" where
  "scenario_start config = ''2025-01-01T00:00:00.000Z''"

text \<open>
  What the platform's \<open>fetch\<close> throws.  A refused or unresolved connection rejects with a
  \<open>TypeError\<close> whose message is \<open>fetch failed\<close>; the system code (\<open>ECONNREFUSED\<close>,
  \<open>ENOTFOUND\<close>) is kept in \<open>error.cause\<close>, which the poller does not read.  The abort at the
  10 s timeout rejects with an \<open>AbortError\<close> whose message is \<open>This operation was aborted\<close>.
  The third behaviour is a failure whose message mentions both a timeout and 429.
\<close>

definition connection_refused :: "nat \<Rightarrow> attempt" where
  "connection_refused k = Rejected (ErrorObject ''fetch failed'')"





definition critical_outage :: jsval where
  "critical_outage = JObj [(''status'', JObj [(''indicator'', JStr ''critical''),
                             (''description'', JStr ''Partial outage'')])]"

definition scenario_second_rejects :: "nat \<Rightarrow> TargetEnv" where
  "scenario_second_rejects i =
     (if i = 0 then \<lparr>poll = PollRuns (\<lambda>k. Responded 200 (Some operational) 500),
                     clock = ''2025-01-01T00:00:01.000Z''\<rparr>
      else if i = 1 then \<lparr>poll = PollRejects [Fetch ''https://status.claude.com/api/v2/status.json'']
                                   (ErrorObject ''boom''),
                          clock = ''2025-01-01T00:00:03.000Z''\<rparr>
      else \<lparr>poll = PollRuns (\<lambda>k. Responded 200 (Some critical_outage) 300),
            clock = ''2025-01-01T00:00:04.000Z''\<rparr>)"

definition scenario_all_503 :: "nat \<Rightarrow> TargetEnv" where
  "scenario_all_503 i = \<lparr>poll = PollRuns (\<lambda>k. Responded 503 None 80),
                          clock = ''2025-01-01T00:05:00.000Z''\<rparr>"

definition scenario_all_operational :: "nat \<Rightarrow> TargetEnv" where
  "scenario_all_operational i = \<lparr>poll = PollRuns (\<lambda>k. Responded 200 (Some operational) 500),
                                  clock = ''2025-01-01T00:05:00.000Z''\<rparr>"

section \<open>Properties of one poll\<close>

subsection \<open>The three ways a call of \<open>checkToolStatus\<close> proceeds\<close>

lemma checkToolStatus_responded:
  "net k = Responded st body latency \<Longrightarrow>
   checkToolStatus config net k = (classify_response st body latency, [Fetch (statusUrl config)])"
  by (simp add: checkToolStatus.simps)

lemma checkToolStatus_retry:
  "net k = Rejected e \<Longrightarrow> k < MAX_RETRIES \<Longrightarrow>
   checkToolStatus config net k =
     (fst (checkToolStatus config net (k + 1)),
      Fetch (statusUrl config) # Delay (1000 * (k + 1)) # snd (checkToolStatus config net (k + 1)))"
  by (subst checkToolStatus.simps) (simp add: split_beta)

lemma checkToolStatus_exhausted:
  "net k = Rejected e \<Longrightarrow> \<not> k < MAX_RETRIES \<Longrightarrow>
   checkToolStatus config net k =
     (\<lparr>status = (if str_includes (lastError (errorMessage e)) ''Rate limited''
                    \<or> str_includes (lastError (errorMessage e)) ''429'' then Degraded else Down),
       latencyMs = None, error = JStr (lastError (errorMessage e))\<rparr>,
      [Fetch (statusUrl config)])"
  by (subst checkToolStatus.simps) (simp add: Let_def)

lemma not_ok_429: "\<not> response_ok 429"
  by (simp add: response_ok_def)

lemma not_ok_5xx: "500 \<le> st \<Longrightarrow> \<not> response_ok st"
  by (simp add: response_ok_def)

subsection \<open>Responses that are not 2xx\<close>

text \<open>
  C2: a completed response with status 429 is classified \<open>degraded\<close> with the diagnostic
  "Rate limited - too many requests", never \<open>down\<close>; a completed response with status 500
  or more is classified \<open>down\<close> with the diagnostic "Server error: <status>", never
  \<open>degraded\<close> or \<open>healthy\<close>.  This holds at whichever attempt the response arrives.
\<close>

theorem status_429_and_5xx:
  assumes "net k = Responded st body latency"
  shows "(st = 429 \<longrightarrow>
            fst (checkToolStatus config net k) =
              \<lparr>status = Degraded, latencyMs = Some latency,
               error = JStr ''Rate limited - too many requests''\<rparr>
            \<and> status (fst (checkToolStatus config net k)) \<noteq> Down)
       \<and> (500 \<le> st \<longrightarrow>
            fst (checkToolStatus config net k) =
              \<lparr>status = Down, latencyMs = Some latency,
               error = JStr (''Server error: '' @ str_of_nat st)\<rparr>
            \<and> status (fst (checkToolStatus config net k)) \<noteq> Degraded
            \<and> status (fst (checkToolStatus config net k)) \<noteq> Healthy)"
  using assms
  by (simp add: checkToolStatus_responded classify_response_def not_ok_429 not_ok_5xx)

theorem status_429_and_5xx_witness:
  "fst (checkToolStatus (toolConfigs ! 0) (\<lambda>k. Responded 429 None 120) 0) =
     \<lparr>status = Degraded, latencyMs = Some 120, error = JStr ''Rate limited - too many requests''\<rparr>
   \<and> fst (checkToolStatus (toolConfigs ! 0) (\<lambda>k. Responded 503 None 80) 0) =
     \<lparr>status = Down, latencyMs = Some 80, error = JStr ''Server error: 503''\<rparr>"
proof -
  have s: "str_of_nat 503 = ''503''" by code_simp
  show ?thesis
    using status_429_and_5xx [of "\<lambda>k. Responded 429 None 120" 0 429 None 120 "toolConfigs ! 0"]
      status_429_and_5xx [of "\<lambda>k. Responded 503 None 80" 0 503 None 80 "toolConfigs ! 0"] s
    by simp
qed

lemma ok_2xx: "200 \<le> st \<Longrightarrow> st \<le> 299 \<Longrightarrow> response_ok st"
  by (simp add: response_ok_def)

subsection \<open>2xx responses whose body cannot be read\<close>

text \<open>
  C3: when a response with status 200 to 299 has a body that \<open>response.json()\<close> rejects, or
  that parses to \<open>null\<close> so that reading \<open>data.status\<close> throws, the poll returns
  \<open>unknown\<close> with the diagnostic "Failed to parse status API response", the measured latency
  (not null), and the call made a single request: nothing is retried.
\<close>

theorem parse_failure_unknown:
  assumes "net k = Responded st body latency" and "200 \<le> st" and "st \<le> 299"
    and "body = None \<or> body = Some JNull"
  shows "checkToolStatus config net k =
           (\<lparr>status = Unknown, latencyMs = Some latency,
             error = JStr ''Failed to parse status API response''\<rparr>,
            [Fetch (statusUrl config)])"
  using assms
  by (auto simp add: checkToolStatus_responded classify_response_def ok_2xx classify_data_def)

theorem parse_failure_unknown_witness:
  "checkToolStatus (toolConfigs ! 1) (\<lambda>k. Responded 200 None 75) 0 =
     (\<lparr>status = Unknown, latencyMs = Some 75,
       error = JStr ''Failed to parse status API response''\<rparr>,
      [Fetch ''https://status.claude.com/api/v2/status.json''])
   \<and> checkToolStatus (toolConfigs ! 1) (\<lambda>k. Responded 204 (Some JNull) 75) 0 =
     (\<lparr>status = Unknown, latencyMs = Some 75,
       error = JStr ''Failed to parse status API response''\<rparr>,
      [Fetch ''https://status.claude.com/api/v2/status.json''])"
  using parse_failure_unknown [of "\<lambda>k. Responded 200 None 75" 0 200 None 75 "toolConfigs ! 1"]
    parse_failure_unknown [of "\<lambda>k. Responded 204 (Some JNull) 75" 0 204 "Some JNull" 75
      "toolConfigs ! 1"]
  by (simp add: toolConfigs_def)

lemma trace_shapes:
  "snd (checkToolStatus config net 0) = [Fetch (statusUrl config)]
   \<or> snd (checkToolStatus config net 0) =
        [Fetch (statusUrl config), Delay 1000, Fetch (statusUrl config)]
   \<or> snd (checkToolStatus config net 0) =
        [Fetch (statusUrl config), Delay 1000, Fetch (statusUrl config), Delay 2000,
         Fetch (statusUrl config)]"
proof -
  have two: "snd (checkToolStatus config net (Suc (Suc 0))) = [Fetch (statusUrl config)]"
    by (cases "net (Suc (Suc 0))") (simp_all add: checkToolStatus_responded checkToolStatus_exhausted MAX_RETRIES_def)
  have one: "snd (checkToolStatus config net (Suc 0)) = [Fetch (statusUrl config)]
      \<or> snd (checkToolStatus config net (Suc 0)) = [Fetch (statusUrl config), Delay 2000, Fetch (statusUrl config)]"
    using two
    by (cases "net (Suc 0)") (simp_all add: checkToolStatus_responded checkToolStatus_retry MAX_RETRIES_def)
  show ?thesis
    using one
    by (cases "net 0") (auto simp add: checkToolStatus_responded checkToolStatus_retry MAX_RETRIES_def)
qed

lemma rejected_attempts_are_retried:
  "(net 0 = Rejected e0 \<longrightarrow>
      Suc 0 < attempts_of (snd (checkToolStatus config net 0))
      \<and> take 2 (snd (checkToolStatus config net 0)) = [Fetch (statusUrl config), Delay 1000])
   \<and> (net 0 = Rejected e0 \<and> net 1 = Rejected e1 \<longrightarrow>
        snd (checkToolStatus config net 0) =
          [Fetch (statusUrl config), Delay 1000, Fetch (statusUrl config), Delay 2000,
           Fetch (statusUrl config)])"
proof -
  have two: "snd (checkToolStatus config net (Suc (Suc 0))) = [Fetch (statusUrl config)]"
    by (cases "net (Suc (Suc 0))")
      (simp_all add: checkToolStatus_responded checkToolStatus_exhausted MAX_RETRIES_def)
  have one: "net (Suc 0) = Rejected e1 \<Longrightarrow> snd (checkToolStatus config net (Suc 0)) =
      [Fetch (statusUrl config), Delay 2000, Fetch (statusUrl config)]"
    using two checkToolStatus_retry [of net "Suc 0" e1 config] by (simp add: MAX_RETRIES_def)
  have zero: "net 0 = Rejected e0 \<Longrightarrow> snd (checkToolStatus config net 0) =
      Fetch (statusUrl config) # Delay 1000 # snd (checkToolStatus config net (Suc 0))"
    using checkToolStatus_retry [of net 0 e0 config] by (simp add: MAX_RETRIES_def)
  obtain rest where r: "snd (checkToolStatus config net (Suc 0)) = Fetch (statusUrl config) # rest"
    by (cases "net (Suc 0)")
      (simp_all add: checkToolStatus_responded checkToolStatus_retry MAX_RETRIES_def)
  have att: "net 0 = Rejected e0 \<Longrightarrow> Suc 0 < attempts_of (snd (checkToolStatus config net 0))"
    by (simp add: zero r attempts_of_def)
  show ?thesis
    using zero one att by simp
qed

text \<open>
  C5: a poll makes at most 3 attempts and waits at most twice; the \<open>n\<close>-th wait is
  \<open>n * 1000\<close> ms, so the waits are 1000 then 2000; every wait stands between two attempts and
  the trace ends with an attempt, never with a wait.  A rejected first attempt is followed
  by the wait of 1000 ms and a second attempt, and a rejected second attempt by the wait of
  2000 ms and the third.  The poll is a total function: it always returns an outcome.
\<close>

theorem bounded_retries_and_backoff:
  "attempts_of (snd (checkToolStatus config net 0)) \<le> 3
   \<and> length (delays_of (snd (checkToolStatus config net 0))) \<le> 2
   \<and> delays_of (snd (checkToolStatus config net 0)) =
       map (\<lambda>n. n * 1000) [1..<attempts_of (snd (checkToolStatus config net 0))]
   \<and> last (snd (checkToolStatus config net 0)) = Fetch (statusUrl config)
   \<and> (snd (checkToolStatus config net 0) = [Fetch (statusUrl config)]
      \<or> snd (checkToolStatus config net 0) =
           [Fetch (statusUrl config), Delay 1000, Fetch (statusUrl config)]
      \<or> snd (checkToolStatus config net 0) =
           [Fetch (statusUrl config), Delay 1000, Fetch (statusUrl config), Delay 2000,
            Fetch (statusUrl config)])
   \<and> (net 0 = Rejected e0 \<longrightarrow>
        Suc 0 < attempts_of (snd (checkToolStatus config net 0))
        \<and> take 2 (snd (checkToolStatus config net 0)) = [Fetch (statusUrl config), Delay 1000])
   \<and> (net 0 = Rejected e0 \<and> net 1 = Rejected e1 \<longrightarrow>
        snd (checkToolStatus config net 0) =
          [Fetch (statusUrl config), Delay 1000, Fetch (statusUrl config), Delay 2000,
           Fetch (statusUrl config)])"
proof -
  have up2: "[1..<2] = [1::nat]" and up3: "[1..<3] = [1::nat, 2]"
    by (simp_all add: upt_rec)
  have bounds: "attempts_of (snd (checkToolStatus config net 0)) \<le> 3
   \<and> length (delays_of (snd (checkToolStatus config net 0))) \<le> 2
   \<and> delays_of (snd (checkToolStatus config net 0)) =
       map (\<lambda>n. n * 1000) [1..<attempts_of (snd (checkToolStatus config net 0))]
   \<and> last (snd (checkToolStatus config net 0)) = Fetch (statusUrl config)
   \<and> (snd (checkToolStatus config net 0) = [Fetch (statusUrl config)]
      \<or> snd (checkToolStatus config net 0) =
           [Fetch (statusUrl config), Delay 1000, Fetch (statusUrl config)]
      \<or> snd (checkToolStatus config net 0) =
           [Fetch (statusUrl config), Delay 1000, Fetch (statusUrl config), Delay 2000,
            Fetch (statusUrl config)])"
    using trace_shapes [of config net]
    by (elim disjE) (simp_all add: attempts_of_def up2 up3)
  show ?thesis
    using bounds rejected_attempts_are_retried [of net e0 config e1] by blast
qed

theorem bounded_retries_and_backoff_witness:
  "connection_refused 0 = Rejected (ErrorObject ''fetch failed'')
   \<and> connection_refused 1 = Rejected (ErrorObject ''fetch failed'')
   \<and> snd (checkToolStatus (toolConfigs ! 0) connection_refused 0) =
       [Fetch ''https://status.openai.com/api/v2/status.json'', Delay 1000,
        Fetch ''https://status.openai.com/api/v2/status.json'', Delay 2000,
        Fetch ''https://status.openai.com/api/v2/status.json'']
   \<and> attempts_of (snd (checkToolStatus (toolConfigs ! 0) connection_refused 0)) = 3
   \<and> delays_of (snd (checkToolStatus (toolConfigs ! 0) connection_refused 0)) = [1000, 2000]"
proof -
  have r: "connection_refused k = Rejected (ErrorObject ''fetch failed'')" for k
    by (simp add: connection_refused_def)
  have u: "statusUrl (toolConfigs ! 0) = ''https://status.openai.com/api/v2/status.json''"
    by (simp add: toolConfigs_def)
  have t: "snd (checkToolStatus (toolConfigs ! 0) connection_refused 0) =
       [Fetch ''https://status.openai.com/api/v2/status.json'', Delay 1000,
        Fetch ''https://status.openai.com/api/v2/status.json'', Delay 2000,
        Fetch ''https://status.openai.com/api/v2/status.json'']"
    using bounded_retries_and_backoff [of "toolConfigs ! 0" connection_refused
        "ErrorObject ''fetch failed''" "ErrorObject ''fetch failed''"] r
    by (simp add: u)
  show ?thesis
    unfolding t using r by (simp add: attempts_of_def)
qed


subsection \<open>All three attempts rejected\<close>




lemma attempts_after_rejections:
  assumes a: "Suc j < attempts_of (snd (checkToolStatus config net 0))"
  shows "\<exists>e. net j = Rejected e"
proof (cases "net 0")
  case (Responded st body latency)
  then show ?thesis
    using a by (simp add: checkToolStatus_responded attempts_of_def)
next
  case r0: (Rejected e0)
  have c0: "checkToolStatus config net 0 =
      (fst (checkToolStatus config net (Suc 0)),
       Fetch (statusUrl config) # Delay 1000 # snd (checkToolStatus config net (Suc 0)))"
    using checkToolStatus_retry [of net 0 e0 config] r0 by (simp add: MAX_RETRIES_def)
  show ?thesis
  proof (cases "net (Suc 0)")
    case (Responded st body latency)
    then have "j = 0"
      using a by (simp add: c0 checkToolStatus_responded attempts_of_def)
    then show ?thesis using r0 by simp
  next
    case r1: (Rejected e1)
    have "attempts_of (snd (checkToolStatus config net 0)) \<le> 3"
      using trace_shapes [of config net] by (elim disjE) (simp_all add: attempts_of_def)
    then have "j = 0 \<or> j = Suc 0" using a by arith
    then show ?thesis using r0 r1 by auto
  qed
qed

subsection \<open>When a retry happens\<close>

text \<open>
  C4: a call whose attempt gets a completed response (whatever its status, and whether or not
  its body parses) returns the classification of that response after that single request;
  a call that makes more than one request had its attempt rejected with retries left; and in
  a poll started at retry count 0, every attempt that is followed by another one was
  rejected.
\<close>

theorem retry_only_after_rejection:
  "(net k = Responded st body latency \<longrightarrow>
      checkToolStatus config net k = (classify_response st body latency, [Fetch (statusUrl config)]))
   \<and> (1 < length (snd (checkToolStatus config net k)) \<longrightarrow>
        (\<exists>e. net k = Rejected e) \<and> k < MAX_RETRIES)
   \<and> (Suc j < attempts_of (snd (checkToolStatus config net 0)) \<longrightarrow> (\<exists>e. net j = Rejected e))"
proof (cases "net k")
  case (Responded st' body' latency')
  then show ?thesis
    using attempts_after_rejections [of j config net] by (simp add: checkToolStatus_responded)
next
  case (Rejected e)
  then show ?thesis
    using attempts_after_rejections [of j config net]
    by (cases "k < MAX_RETRIES") (simp_all add: checkToolStatus_exhausted)
qed

theorem retry_only_after_rejection_witness:
  "checkToolStatus (toolConfigs ! 2) (\<lambda>k. Responded 404 None 60) 0 =
     (\<lparr>status = Down, latencyMs = Some 60, error = JStr ''HTTP 404''\<rparr>,
      [Fetch ''https://status.cursor.com/api/v2/status.json''])
   \<and> 1 < length (snd (checkToolStatus (toolConfigs ! 2)
            (\<lambda>k. if k = 0 then Rejected (ErrorObject ''fetch failed'') else Responded 200 None 60) 0))
   \<and> Suc 0 < attempts_of (snd (checkToolStatus (toolConfigs ! 2)
            (\<lambda>k. if k = 0 then Rejected (ErrorObject ''fetch failed'') else Responded 200 None 60) 0))"
proof -
  have s: "str_of_nat 404 = ''404''" by code_simp
  have two: "1 < length (snd (checkToolStatus (toolConfigs ! 2)
            (\<lambda>k. if k = 0 then Rejected (ErrorObject ''fetch failed'') else Responded 200 None 60) 0))"
    by (simp add: checkToolStatus_retry MAX_RETRIES_def)
  have att: "Suc 0 < attempts_of (snd (checkToolStatus (toolConfigs ! 2)
            (\<lambda>k. if k = 0 then Rejected (ErrorObject ''fetch failed'') else Responded 200 None 60) 0))"
    by (simp add: checkToolStatus_retry checkToolStatus_responded MAX_RETRIES_def attempts_of_def)
  show ?thesis
    using retry_only_after_rejection [of "\<lambda>k. Responded 404 None 60" 0 404 None 60 "toolConfigs ! 2" 0]
      retry_only_after_rejection [of "\<lambda>k. if k = 0 then Rejected (ErrorObject ''fetch failed'')
          else Responded 200 None 60" 0 200 None 60 "toolConfigs ! 2" 0] two att s
    by (simp add: toolConfigs_def classify_response_def response_ok_def)
qed

lemma js_or_empty: "js_or (js_or d (JStr [])) (JStr fb) = js_or d (JStr fb)"
  by (simp add: js_or_def)

lemma classify_data_status_object:
  "map_of kvs ''status'' = Some (JObj props) \<Longrightarrow>
   classify_data (JObj kvs) latency =
     (let indicator = (case map_of props ''indicator'' of None \<Rightarrow> JUndefined | Some v \<Rightarrow> v);
          desc = (case map_of props ''description'' of None \<Rightarrow> JUndefined | Some d \<Rightarrow> d)
      in if indicator = JStr ''none'' then
           Inr \<lparr>status = (if latency \<le> 2000 then Healthy else Degraded),
                  latencyMs = Some latency, error = JUndefined\<rparr>
         else if indicator = JStr ''minor'' then
           Inr \<lparr>status = Degraded, latencyMs = Some latency,
                error = js_or desc (JStr ''Minor service outage'')\<rparr>
         else if indicator = JStr ''major'' then
           Inr \<lparr>status = Down, latencyMs = Some latency,
                error = js_or desc (JStr ''Service status: major'')\<rparr>
         else if indicator = JStr ''critical'' then
           Inr \<lparr>status = Down, latencyMs = Some latency,
                error = js_or desc (JStr ''Service status: critical'')\<rparr>
         else if indicator = JStr ''partial'' then
           Inr \<lparr>status = Degraded, latencyMs = Some latency,
                error = js_or desc (JStr ''Partial outage detected'')\<rparr>
         else Inr \<lparr>status = (if latency \<le> 2000 then Healthy else Degraded),
                  latencyMs = Some latency, error = JUndefined\<rparr>)"
  by (simp add: classify_data_def Let_def js_or_empty)

lemma classify_data_other_status:
  assumes "\<forall>props. map_of kvs ''status'' \<noteq> Some (JObj props)"
  shows "classify_data (JObj kvs) latency =
           Inr \<lparr>status = (if latency \<le> 2000 then Healthy else Degraded),
                latencyMs = Some latency, error = JUndefined\<rparr>"
proof (cases "map_of kvs ''status''")
  case None
  then show ?thesis by (simp add: classify_data_def Let_def)
next
  case (Some v)
  then show ?thesis using assms
    by (cases v) (simp_all add: classify_data_def Let_def)
qed

subsection \<open>2xx responses whose body is a JSON object\<close>

text \<open>
  C1: for a response with status 200 to 299 whose body parses to an object, with \<open>ind\<close>
  the \<open>indicator\<close> and \<open>desc\<close> the \<open>description\<close> of its \<open>status\<close> object: indicator
  \<open>none\<close> gives \<open>healthy\<close> up to 2000 ms and \<open>degraded\<close> above; \<open>minor\<close> and
  \<open>partial\<close> give \<open>degraded\<close> with the description or a fixed phrase; \<open>major\<close> and
  \<open>critical\<close> give \<open>down\<close> with the description or "Service status: <indicator>"; any
  other or missing indicator (also a missing \<open>status\<close>) gives \<open>healthy\<close> up to 2000 ms
  and \<open>degraded\<close> above.  The measured latency is reported in every case.
\<close>

theorem classify_2xx_parsed:
  assumes resp: "net k = Responded st (Some (JObj kvs)) latency"
    and ok: "200 \<le> st" "st \<le> 299"
  shows "(map_of kvs ''status'' = Some (JObj props) \<and> map_of props ''indicator'' = ind
            \<and> (case map_of props ''description'' of None \<Rightarrow> JUndefined | Some d \<Rightarrow> d) = desc \<longrightarrow>
            (ind = Some (JStr ''none'') \<longrightarrow>
               fst (checkToolStatus config net k) =
                 \<lparr>status = (if latency \<le> 2000 then Healthy else Degraded),
                  latencyMs = Some latency, error = JUndefined\<rparr>)
          \<and> (ind = Some (JStr ''minor'') \<longrightarrow>
               fst (checkToolStatus config net k) =
                 \<lparr>status = Degraded, latencyMs = Some latency,
                  error = js_or desc (JStr ''Minor service outage'')\<rparr>)
          \<and> (ind = Some (JStr ''partial'') \<longrightarrow>
               fst (checkToolStatus config net k) =
                 \<lparr>status = Degraded, latencyMs = Some latency,
                  error = js_or desc (JStr ''Partial outage detected'')\<rparr>)
          \<and> (ind = Some (JStr ''major'') \<longrightarrow>
               fst (checkToolStatus config net k) =
                 \<lparr>status = Down, latencyMs = Some latency,
                  error = js_or desc (JStr ''Service status: major'')\<rparr>)
          \<and> (ind = Some (JStr ''critical'') \<longrightarrow>
               fst (checkToolStatus config net k) =
                 \<lparr>status = Down, latencyMs = Some latency,
                  error = js_or desc (JStr ''Service status: critical'')\<rparr>)
          \<and> (ind \<noteq> Some (JStr ''none'') \<and> ind \<noteq> Some (JStr ''minor'')
               \<and> ind \<noteq> Some (JStr ''partial'') \<and> ind \<noteq> Some (JStr ''major'')
               \<and> ind \<noteq> Some (JStr ''critical'') \<longrightarrow>
               fst (checkToolStatus config net k) =
                 \<lparr>status = (if latency \<le> 2000 then Healthy else Degraded),
                  latencyMs = Some latency, error = JUndefined\<rparr>))
       \<and> ((\<forall>props. map_of kvs ''status'' \<noteq> Some (JObj props)) \<longrightarrow>
            fst (checkToolStatus config net k) =
              \<lparr>status = (if latency \<le> 2000 then Healthy else Degraded),
               latencyMs = Some latency, error = JUndefined\<rparr>)
       \<and> latencyMs (fst (checkToolStatus config net k)) = Some latency"
proof -
  have r: "fst (checkToolStatus config net k) =
      (case classify_data (JObj kvs) latency of Inr r \<Rightarrow> r
       | Inl e \<Rightarrow> \<lparr>status = Unknown, latencyMs = Some latency,
                      error = JStr ''Failed to parse status API response''\<rparr>)"
    using resp ok by (simp add: checkToolStatus_responded classify_response_def ok_2xx)
  have lat: "latencyMs (fst (checkToolStatus config net k)) = Some latency"
  proof (cases "\<exists>props. map_of kvs ''status'' = Some (JObj props)")
    case True
    then show ?thesis
      by (auto simp add: r classify_data_status_object Let_def)
  next
    case False
    then show ?thesis
      by (simp add: r classify_data_other_status)
  qed
  have obj: "map_of kvs ''status'' = Some (JObj props) \<Longrightarrow>
      fst (checkToolStatus config net k) =
        (let indicator = (case map_of props ''indicator'' of None \<Rightarrow> JUndefined | Some v \<Rightarrow> v);
             desc = (case map_of props ''description'' of None \<Rightarrow> JUndefined | Some d \<Rightarrow> d)
         in if indicator = JStr ''none'' then
              \<lparr>status = (if latency \<le> 2000 then Healthy else Degraded),
               latencyMs = Some latency, error = JUndefined\<rparr>
            else if indicator = JStr ''minor'' then
              \<lparr>status = Degraded, latencyMs = Some latency,
               error = js_or desc (JStr ''Minor service outage'')\<rparr>
            else if indicator = JStr ''major'' then
              \<lparr>status = Down, latencyMs = Some latency,
               error = js_or desc (JStr ''Service status: major'')\<rparr>
            else if indicator = JStr ''critical'' then
              \<lparr>status = Down, latencyMs = Some latency,
               error = js_or desc (JStr ''Service status: critical'')\<rparr>
            else if indicator = JStr ''partial'' then
              \<lparr>status = Degraded, latencyMs = Some latency,
               error = js_or desc (JStr ''Partial outage detected'')\<rparr>
            else \<lparr>status = (if latency \<le> 2000 then Healthy else Degraded),
                  latencyMs = Some latency, error = JUndefined\<rparr>)" for props
    by (simp add: r classify_data_status_object Let_def)
  have other: "(\<forall>props. map_of kvs ''status'' \<noteq> Some (JObj props)) \<longrightarrow>
            fst (checkToolStatus config net k) =
              \<lparr>status = (if latency \<le> 2000 then Healthy else Degraded),
               latencyMs = Some latency, error = JUndefined\<rparr>"
    by (simp add: r classify_data_other_status)
  show ?thesis
  proof (intro conjI impI)
    assume h: "map_of kvs ''status'' = Some (JObj props) \<and> map_of props ''indicator'' = ind \<and>
       (case map_of props ''description'' of None \<Rightarrow> JUndefined | Some d \<Rightarrow> d) = desc"
    note o = obj [of props]
    { assume "ind = Some (JStr ''none'')"
      then show "fst (checkToolStatus config net k) =
                 \<lparr>status = (if latency \<le> 2000 then Healthy else Degraded),
                  latencyMs = Some latency, error = JUndefined\<rparr>"
        using h o by (simp add: Let_def) }
    { assume "ind = Some (JStr ''minor'')"
      then show "fst (checkToolStatus config net k) =
                 \<lparr>status = Degraded, latencyMs = Some latency,
                  error = js_or desc (JStr ''Minor service outage'')\<rparr>"
        using h o by (auto simp add: Let_def) }
    { assume "ind = Some (JStr ''partial'')"
      then show "fst (checkToolStatus config net k) =
                 \<lparr>status = Degraded, latencyMs = Some latency,
                  error = js_or desc (JStr ''Partial outage detected'')\<rparr>"
        using h o by (auto simp add: Let_def) }
    { assume "ind = Some (JStr ''major'')"
      then show "fst (checkToolStatus config net k) =
                 \<lparr>status = Down, latencyMs = Some latency,
                  error = js_or desc (JStr ''Service status: major'')\<rparr>"
        using h o by (auto simp add: Let_def) }
    { assume "ind = Some (JStr ''critical'')"
      then show "fst (checkToolStatus config net k) =
                 \<lparr>status = Down, latencyMs = Some latency,
                  error = js_or desc (JStr ''Service status: critical'')\<rparr>"
        using h o by (auto simp add: Let_def) }
    { assume "ind \<noteq> Some (JStr ''none'') \<and> ind \<noteq> Some (JStr ''minor'')
               \<and> ind \<noteq> Some (JStr ''partial'') \<and> ind \<noteq> Some (JStr ''major'')
               \<and> ind \<noteq> Some (JStr ''critical'')"
      then show "fst (checkToolStatus config net k) =
                 \<lparr>status = (if latency \<le> 2000 then Healthy else Degraded),
                  latencyMs = Some latency, error = JUndefined\<rparr>"
        using h o by (cases ind) (auto simp add: Let_def) }
  next
    assume "\<forall>props. map_of kvs ''status'' \<noteq> Some (JObj props)"
    then show "fst (checkToolStatus config net k) =
              \<lparr>status = (if latency \<le> 2000 then Healthy else Degraded),
               latencyMs = Some latency, error = JUndefined\<rparr>"
      using other by simp
  next
    show "latencyMs (fst (checkToolStatus config net k)) = Some latency" by (rule lat)
  qed
qed

theorem classify_2xx_parsed_witness:
  "fst (checkToolStatus (toolConfigs ! 0)
        (\<lambda>k. Responded 200 (Some (JObj [(''status'', JObj [(''indicator'', JStr ''critical''),
                  (''description'', JStr ''Partial outage'')])])) 300) 0) =
     \<lparr>status = Down, latencyMs = Some 300, error = JStr ''Partial outage''\<rparr>
   \<and> fst (checkToolStatus (toolConfigs ! 0)
        (\<lambda>k. Responded 200 (Some (JObj [(''status'', JObj [(''indicator'', JStr ''none''),
                  (''description'', JStr ''All Systems Operational'')])])) 2500) 0) =
     \<lparr>status = Degraded, latencyMs = Some 2500, error = JUndefined\<rparr>
   \<and> fst (checkToolStatus (toolConfigs ! 0)
        (\<lambda>k. Responded 200 (Some (JObj [(''status'', JObj [(''indicator'', JStr ''minor''),
                  (''description'', JStr [])])])) 120) 0) =
     \<lparr>status = Degraded, latencyMs = Some 120, error = JStr ''Minor service outage''\<rparr>
   \<and> fst (checkToolStatus (toolConfigs ! 0)
        (\<lambda>k. Responded 200 (Some (JObj [(''status'', JObj [(''indicator'', JStr ''partial'')])])) 120) 0) =
     \<lparr>status = Degraded, latencyMs = Some 120, error = JStr ''Partial outage detected''\<rparr>
   \<and> fst (checkToolStatus (toolConfigs ! 0)
        (\<lambda>k. Responded 200 (Some (JObj [(''status'', JObj [(''indicator'', JStr ''major'')])])) 120) 0) =
     \<lparr>status = Down, latencyMs = Some 120, error = JStr ''Service status: major''\<rparr>
   \<and> fst (checkToolStatus (toolConfigs ! 0)
        (\<lambda>k. Responded 200 (Some (JObj [(''status'', JObj [(''indicator'', JStr ''maintenance'')])])) 500) 0) =
     \<lparr>status = Healthy, latencyMs = Some 500, error = JUndefined\<rparr>
   \<and> fst (checkToolStatus (toolConfigs ! 0)
        (\<lambda>k. Responded 200 (Some (JObj [(''page'', JStr ''x'')])) 500) 0) =
     \<lparr>status = Healthy, latencyMs = Some 500, error = JUndefined\<rparr>"
proof -
  note t = classify_2xx_parsed [where k = 0 and st = 200 and config = "toolConfigs ! 0"]
  show ?thesis
    using t [of "\<lambda>k. Responded 200 (Some (JObj [(''status'', JObj [(''indicator'', JStr ''critical''),
                  (''description'', JStr ''Partial outage'')])])) 300"
               "[(''status'', JObj [(''indicator'', JStr ''critical''),
                  (''description'', JStr ''Partial outage'')])]" 300
               "[(''indicator'', JStr ''critical''), (''description'', JStr ''Partial outage'')]"
               "Some (JStr ''critical'')" "JStr ''Partial outage''"]
      t [of "\<lambda>k. Responded 200 (Some (JObj [(''status'', JObj [(''indicator'', JStr ''none''),
                  (''description'', JStr ''All Systems Operational'')])])) 2500"
               "[(''status'', JObj [(''indicator'', JStr ''none''),
                  (''description'', JStr ''All Systems Operational'')])]" 2500
               "[(''indicator'', JStr ''none''), (''description'', JStr ''All Systems Operational'')]"
               "Some (JStr ''none'')" "JStr ''All Systems Operational''"]
      t [of "\<lambda>k. Responded 200 (Some (JObj [(''status'', JObj [(''indicator'', JStr ''minor''),
                  (''description'', JStr [])])])) 120"
               "[(''status'', JObj [(''indicator'', JStr ''minor''), (''description'', JStr [])])]" 120
               "[(''indicator'', JStr ''minor''), (''description'', JStr [])]"
               "Some (JStr ''minor'')" "JStr []"]
      t [of "\<lambda>k. Responded 200 (Some (JObj [(''status'', JObj [(''indicator'', JStr ''partial'')])])) 120"
               "[(''status'', JObj [(''indicator'', JStr ''partial'')])]" 120
               "[(''indicator'', JStr ''partial'')]" "Some (JStr ''partial'')" JUndefined]
      t [of "\<lambda>k. Responded 200 (Some (JObj [(''status'', JObj [(''indicator'', JStr ''major'')])])) 120"
               "[(''status'', JObj [(''indicator'', JStr ''major'')])]" 120
               "[(''indicator'', JStr ''major'')]" "Some (JStr ''major'')" JUndefined]
      t [of "\<lambda>k. Responded 200 (Some (JObj [(''status'', JObj [(''indicator'', JStr ''maintenance'')])])) 500"
               "[(''status'', JObj [(''indicator'', JStr ''maintenance'')])]" 500
               "[(''indicator'', JStr ''maintenance'')]" "Some (JStr ''maintenance'')" JUndefined]
      t [of "\<lambda>k. Responded 200 (Some (JObj [(''page'', JStr ''x'')])) 500"
               "[(''page'', JStr ''x'')]" 500 "[]" None JUndefined]
    by (simp add: js_or_def)
qed

section \<open>Properties of a sweep\<close>

lemma findIndex_aligned:
  "distinct (map f xs) \<Longrightarrow> map g ys = map f xs \<Longrightarrow> i < length xs \<Longrightarrow>
   findIndex (\<lambda>y. g y = f (xs ! i)) ys = int i"
proof (induction xs arbitrary: ys i)
  case Nil
  then show ?case by simp
next
  case (Cons x xs)
  then obtain y ys' where ys: "ys = y # ys'" "g y = f x" "map g ys' = map f xs"
    by (cases ys) auto
  show ?case
  proof (cases i)
    case 0
    then show ?thesis using ys by simp
  next
    case (Suc n)
    then have n: "n < length xs" using Cons.prems by simp
    have ne: "f x \<noteq> f (xs ! n)" using Cons.prems(1) n by auto
    have "findIndex (\<lambda>y. g y = f (xs ! n)) ys' = int n"
      using Cons.IH [OF _ ys(3) n] Cons.prems(1) by simp
    then show ?thesis using ys ne Suc by (simp add: Let_def)
  qed
qed

lemma find_aligned:
  "distinct (map f xs) \<Longrightarrow> map g ys = map f xs \<Longrightarrow> i < length xs \<Longrightarrow>
   find (\<lambda>y. g y = f (xs ! i)) ys = Some (ys ! i)"
proof (induction xs arbitrary: ys i)
  case Nil
  then show ?case by simp
next
  case (Cons x xs)
  then obtain y ys' where ys: "ys = y # ys'" "g y = f x" "map g ys' = map f xs"
    by (cases ys) auto
  show ?case
  proof (cases i)
    case 0
    then show ?thesis using ys by simp
  next
    case (Suc n)
    then have n: "n < length xs" using Cons.prems by simp
    have ne: "f x \<noteq> f (xs ! n)" using Cons.prems(1) n by auto
    have "find (\<lambda>y. g y = f (xs ! n)) ys' = Some (ys' ! n)"
      using Cons.IH [OF _ ys(3) n] Cons.prems(1) by simp
    then show ?thesis using ys ne Suc by simp
  qed
qed

lemma iteration_runs:
  assumes "distinct (map cid cfgs)" "map tid (tools s) = map cid cfgs" "i < length cfgs"
    and "poll (env i) = PollRuns net"
  shows "tools (sweep_iteration cfgs env i s) =
           (tools s)[i := updatedTool (cfgs ! i) (fst (checkToolStatus (cfgs ! i) net 0)) (clock (env i))]"
proof -
  have fi: "findIndex (\<lambda>t. tid t = cid (cfgs ! i)) (tools s) = int i"
    using assms(1-3) by (rule findIndex_aligned)
  show ?thesis
    unfolding sweep_iteration_def Let_def assms(4) fi
    by (simp add: split_beta)
qed

lemma iteration_rejects:
  assumes "distinct (map cid cfgs)" "map tid (tools s) = map cid cfgs" "i < length cfgs"
    and "poll (env i) = PollRejects pre e"
  shows "tools (sweep_iteration cfgs env i s) =
           (tools s)[i := failedTool (tools s ! i) e (clock (env i))]"
proof -
  have fi: "findIndex (\<lambda>t. tid t = cid (cfgs ! i)) (tools s) = int i"
    using assms(1-3) by (rule findIndex_aligned)
  show ?thesis
    unfolding sweep_iteration_def Let_def assms(4) fi
    by simp
qed

lemma map_update_same: "i < length xs \<Longrightarrow> f y = f (xs ! i) \<Longrightarrow> map f (xs[i := y]) = map f xs"
  by (simp add: map_update list_update_same_conv)

lemma iteration_aligned:
  assumes d: "distinct (map cid cfgs)" and a: "aligned cfgs (tools s)" and i: "i < length cfgs"
  shows "aligned cfgs (tools (sweep_iteration cfgs env i s))"
proof -
  have ids: "map tid (tools s) = map cid cfgs" and names: "map tname (tools s) = map cname cfgs"
    using a by (simp_all add: aligned_def)
  have len: "i < length (tools s)"
    using ids i by (metis length_map)
  have idi: "tid (tools s ! i) = cid (cfgs ! i)"
    using ids i len by (metis nth_map)
  have namei: "tname (tools s ! i) = cname (cfgs ! i)"
    using names i len by (metis nth_map)
  show ?thesis
  proof (cases "poll (env i)")
    case (PollRuns net)
    show ?thesis
      unfolding aligned_def iteration_runs [of cfgs s i env net, OF d ids i PollRuns]
      using len idi namei ids names
      by (simp add: map_update_same updatedTool_def)
  next
    case (PollRejects pre e)
    show ?thesis
      unfolding aligned_def iteration_rejects [of cfgs s i env pre e, OF d ids i PollRejects]
      using len idi namei ids names
      by (simp add: map_update_same failedTool_def)
  qed
qed

lemma iteration_written:
  assumes d: "distinct (map cid cfgs)" and a: "aligned cfgs (tools s)" and i: "i < length cfgs"
  shows "tools (sweep_iteration cfgs env i s) = (tools s)[i := written cfgs env i (tools s ! i)]"
proof -
  have ids: "map tid (tools s) = map cid cfgs"
    using a by (simp add: aligned_def)
  show ?thesis
  proof (cases "poll (env i)")
    case (PollRuns net)
    then show ?thesis
      using iteration_runs [of cfgs s i env net, OF d ids i] by (simp add: written_def)
  next
    case (PollRejects pre e)
    then show ?thesis
      using iteration_rejects [of cfgs s i env pre e, OF d ids i] by (simp add: written_def)
  qed
qed

lemma aligned_length: "aligned cfgs ts \<Longrightarrow> length ts = length cfgs"
  by (metis aligned_def length_map)

lemma sweep_from_tools:
  assumes d: "distinct (map cid cfgs)"
  shows "aligned cfgs (tools s) \<Longrightarrow>
         aligned cfgs (tools (sweep_from cfgs env i s))
         \<and> (\<forall>j<length cfgs. tools (sweep_from cfgs env i s) ! j =
               (if i \<le> j then written cfgs env j (tools s ! j) else tools s ! j))"
  using d
proof (induction cfgs env i s rule: sweep_from.induct)
  case (1 cfgs env i s)
  show ?case
  proof (cases "i < length cfgs")
    case False
    then show ?thesis
      using "1.prems" by (simp add: sweep_from.simps)
  next
    case True
    let ?s' = "sweep_iteration cfgs env i s"
    have a': "aligned cfgs (tools ?s')"
      using "1.prems" True by (simp add: iteration_aligned)
    have w: "tools ?s' = (tools s)[i := written cfgs env i (tools s ! i)]"
      using "1.prems" True by (simp add: iteration_written)
    have len: "length (tools s) = length cfgs"
      using "1.prems"(1) by (rule aligned_length)
    have step: "sweep_from cfgs env i s = sweep_from cfgs env (i + 1) ?s'"
      using True by (subst sweep_from.simps) simp
    have ih: "aligned cfgs (tools (sweep_from cfgs env (i + 1) ?s'))
         \<and> (\<forall>j<length cfgs. tools (sweep_from cfgs env (i + 1) ?s') ! j =
               (if i + 1 \<le> j then written cfgs env j (tools ?s' ! j) else tools ?s' ! j))"
      using "1.IH" [OF True a' "1.prems"(2)] .
    have "tools (sweep_from cfgs env (i + 1) ?s') ! j =
            (if i \<le> j then written cfgs env j (tools s ! j) else tools s ! j)"
      if j: "j < length cfgs" for j
    proof -
      consider "j < i" | "j = i" | "i + 1 \<le> j" by linarith
      then show ?thesis
        using ih j len by cases (simp_all add: w)
    qed
    then show ?thesis
      unfolding step using ih by simp
  qed
qed

lemma fetch_in_poll_trace: "Fetch (statusUrl config) \<in> set (snd (checkToolStatus config net 0))"
  using trace_shapes [of config net] by (elim disjE) simp_all

lemma no_telemetry_in_poll: "filter is_telemetry (snd (checkToolStatus config net 0)) = []"
  using trace_shapes [of config net] by (elim disjE) simp_all

lemma iteration_trace_runs:
  assumes "poll (env i) = PollRuns net"
  shows "\<exists>rest. trace (sweep_iteration cfgs env i s) =
           trace s @ snd (checkToolStatus (cfgs ! i) net 0) @ rest"
  unfolding sweep_iteration_def Let_def assms
  by (simp add: split_beta)

lemma iteration_trace_rejects:
  assumes "poll (env i) = PollRejects pre e"
  shows "trace (sweep_iteration cfgs env i s) =
           trace s @ pre @ [ConsoleErrorThrown (cname (cfgs ! i)) e]"
  unfolding sweep_iteration_def Let_def assms
  by simp

lemma trace_mono_iteration: "set (trace s) \<subseteq> set (trace (sweep_iteration cfgs env i s))"
proof (cases "poll (env i)")
  case (PollRuns net)
  then show ?thesis
    using iteration_trace_runs [of env i net cfgs s] by auto
next
  case (PollRejects pre e)
  then show ?thesis
    using iteration_trace_rejects [of env i pre e cfgs s] by auto
qed

lemma trace_mono_sweep: "set (trace s) \<subseteq> set (trace (sweep_from cfgs env i s))"
proof (induction cfgs env i s rule: sweep_from.induct)
  case (1 cfgs env i s)
  show ?case
  proof (cases "i < length cfgs")
    case True
    have step: "sweep_from cfgs env i s = sweep_from cfgs env (i + 1) (sweep_iteration cfgs env i s)"
      using True by (subst sweep_from.simps) simp
    show ?thesis
      unfolding step using "1.IH" [OF True] trace_mono_iteration [of s cfgs env i] by blast
  next
    case False
    then show ?thesis by (simp add: sweep_from.simps)
  qed
qed

lemma fetch_in_sweep:
  "i \<le> j \<Longrightarrow> j < length cfgs \<Longrightarrow> poll (env j) = PollRuns net \<Longrightarrow>
   Fetch (statusUrl (cfgs ! j)) \<in> set (trace (sweep_from cfgs env i s))"
proof (induction cfgs env i s rule: sweep_from.induct)
  case (1 cfgs env i s)
  have True: "i < length cfgs" using "1.prems" by simp
  have step: "sweep_from cfgs env i s = sweep_from cfgs env (i + 1) (sweep_iteration cfgs env i s)"
    using True by (subst sweep_from.simps) simp
  show ?case
  proof (cases "i = j")
    case True
    obtain rest where "trace (sweep_iteration cfgs env i s) =
           trace s @ snd (checkToolStatus (cfgs ! i) net 0) @ rest"
      using iteration_trace_runs [of env i net cfgs s] "1.prems"(3) True by auto
    then have "Fetch (statusUrl (cfgs ! j)) \<in> set (trace (sweep_iteration cfgs env i s))"
      using fetch_in_poll_trace [of "cfgs ! i" net] True by simp
    then show ?thesis
      unfolding step
      using trace_mono_sweep [of "sweep_iteration cfgs env i s" cfgs env "i + 1"] by blast
  next
    case False
    then have "i + 1 \<le> j" using "1.prems"(1) by simp
    then show ?thesis
      unfolding step using "1.IH" [OF \<open>i < length cfgs\<close> _ "1.prems"(2,3)] by simp
  qed
qed

lemma toolConfigs_distinct: "distinct (map cid toolConfigs)"
  by (simp add: toolConfigs_def)

lemma init_aligned: "aligned toolConfigs (tools_init start)"
  by (simp add: aligned_def tools_init_def comp_def)

lemma reachable_aligned: "reachable ts \<Longrightarrow> aligned toolConfigs ts"
proof (induction rule: reachable.induct)
  case (reachable_init start)
  show ?case by (rule init_aligned)
next
  case (reachable_iteration ts i env tr)
  then show ?case
    using iteration_aligned [of toolConfigs "\<lparr>tools = ts, trace = tr\<rparr>" i env] toolConfigs_distinct
    by simp
qed

subsection \<open>A rejected poll does not stop the sweep\<close>

text \<open>
  C8: in a sweep started from any store the process can hold, whatever happens at the
  other targets: a target whose poll rejects keeps its record, with verdict \<open>unknown\<close> and
  the message of the failure as diagnostic (\<open>Unknown error\<close> when the thrown value is not an
  \<open>Error\<close>); a target whose poll runs has its endpoint fetched and its record replaced by
  the outcome of its own poll.  Every target's record is written in every sweep and the
  store keeps one record per target.
\<close>

theorem sweep_survives_rejected_poll:
  assumes r: "reachable ts" and i: "i < length toolConfigs"
  shows "length (tools (checkAllToolsStatus env ts)) = length toolConfigs
       \<and> (poll (env i) = PollRejects pre e \<longrightarrow>
            tools (checkAllToolsStatus env ts) ! i = failedTool (ts ! i) e (clock (env i))
            \<and> tid (tools (checkAllToolsStatus env ts) ! i) = cid (toolConfigs ! i)
            \<and> tstatus (tools (checkAllToolsStatus env ts) ! i) = Unknown
            \<and> terror (tools (checkAllToolsStatus env ts) ! i) =
                JStr (case e of ErrorObject m \<Rightarrow> m | NonError v \<Rightarrow> ''Unknown error''))
       \<and> (poll (env i) = PollRuns net \<longrightarrow>
            tools (checkAllToolsStatus env ts) ! i =
              updatedTool (toolConfigs ! i) (fst (checkToolStatus (toolConfigs ! i) net 0))
                (clock (env i))
            \<and> Fetch (statusUrl (toolConfigs ! i)) \<in> set (trace (checkAllToolsStatus env ts)))"
proof -
  have a: "aligned toolConfigs ts" using r by (rule reachable_aligned)
  let ?s = "\<lparr>tools = ts, trace = []\<rparr>"
  have a': "aligned toolConfigs (tools ?s)" using a by simp
  note sw = sweep_from_tools [OF toolConfigs_distinct a', of env 0]
  have len: "length (tools (checkAllToolsStatus env ts)) = length toolConfigs"
    using sw by (simp add: checkAllToolsStatus_def aligned_length)
  have nth: "tools (checkAllToolsStatus env ts) ! i = written toolConfigs env i (ts ! i)"
    using sw i by (simp add: checkAllToolsStatus_def)
  have idi: "tid (ts ! i) = cid (toolConfigs ! i)"
    using a i by (metis aligned_def aligned_length nth_map)
  have f: "poll (env i) = PollRuns net \<Longrightarrow>
      Fetch (statusUrl (toolConfigs ! i)) \<in> set (trace (checkAllToolsStatus env ts))"
    unfolding checkAllToolsStatus_def using i by (intro fetch_in_sweep) simp_all
  show ?thesis
    using len f idi by (auto simp add: nth written_def failedTool_def)
qed

theorem sweep_survives_rejected_poll_witness:
  "reachable (tools_init scenario_start)
   \<and> poll (scenario_second_rejects 1) =
         PollRejects [Fetch ''https://status.claude.com/api/v2/status.json''] (ErrorObject ''boom'')
   \<and> length (tools (checkAllToolsStatus scenario_second_rejects (tools_init scenario_start))) = 3
   \<and> tools (checkAllToolsStatus scenario_second_rejects (tools_init scenario_start)) ! 0 =
       \<lparr>tid = Chatgpt, tname = ''ChatGPT'', tstatus = Healthy,
        lastChecked = ''2025-01-01T00:00:01.000Z'', tlatencyMs = Some 500, terror = JUndefined\<rparr>
   \<and> tools (checkAllToolsStatus scenario_second_rejects (tools_init scenario_start)) ! 1 =
       \<lparr>tid = Claude, tname = ''Claude'', tstatus = Unknown,
        lastChecked = ''2025-01-01T00:00:03.000Z'', tlatencyMs = None, terror = JStr ''boom''\<rparr>
   \<and> tools (checkAllToolsStatus scenario_second_rejects (tools_init scenario_start)) ! 2 =
       \<lparr>tid = Cursor, tname = ''Cursor'', tstatus = Down,
        lastChecked = ''2025-01-01T00:00:04.000Z'', tlatencyMs = Some 300,
        terror = JStr ''Partial outage''\<rparr>
   \<and> Fetch ''https://status.cursor.com/api/v2/status.json''
        \<in> set (trace (checkAllToolsStatus scenario_second_rejects (tools_init scenario_start)))"
proof -
  have r: "reachable (tools_init scenario_start)" by (rule reachable_init)
  have i0: "0 < length toolConfigs" and i1: "1 < length toolConfigs" and i2: "2 < length toolConfigs"
    by (simp_all add: toolConfigs_def)
  have p0: "poll (scenario_second_rejects 0) = PollRuns (\<lambda>k. Responded 200 (Some operational) 500)"
    and p1: "poll (scenario_second_rejects 1) =
         PollRejects [Fetch ''https://status.claude.com/api/v2/status.json''] (ErrorObject ''boom'')"
    and p2: "poll (scenario_second_rejects 2) = PollRuns (\<lambda>k. Responded 200 (Some critical_outage) 300)"
    by (simp_all add: scenario_second_rejects_def)
  have e0: "updatedTool (toolConfigs ! 0)
              (fst (checkToolStatus (toolConfigs ! 0) (\<lambda>k. Responded 200 (Some operational) 500) 0))
              (clock (scenario_second_rejects 0)) =
            \<lparr>tid = Chatgpt, tname = ''ChatGPT'', tstatus = Healthy,
             lastChecked = ''2025-01-01T00:00:01.000Z'', tlatencyMs = Some 500, terror = JUndefined\<rparr>"
    by code_simp
  have e1: "failedTool (tools_init scenario_start ! 1) (ErrorObject ''boom'')
              (clock (scenario_second_rejects 1)) =
            \<lparr>tid = Claude, tname = ''Claude'', tstatus = Unknown,
             lastChecked = ''2025-01-01T00:00:03.000Z'', tlatencyMs = None, terror = JStr ''boom''\<rparr>"
    by code_simp
  have e2: "updatedTool (toolConfigs ! 2)
              (fst (checkToolStatus (toolConfigs ! 2) (\<lambda>k. Responded 200 (Some critical_outage) 300) 0))
              (clock (scenario_second_rejects 2)) =
            \<lparr>tid = Cursor, tname = ''Cursor'', tstatus = Down,
             lastChecked = ''2025-01-01T00:00:04.000Z'', tlatencyMs = Some 300,
             terror = JStr ''Partial outage''\<rparr>"
    by code_simp
  have u2: "statusUrl (toolConfigs ! 2) = ''https://status.cursor.com/api/v2/status.json''"
    by (simp add: toolConfigs_def)
  have len: "length toolConfigs = 3" by (simp add: toolConfigs_def)
  show ?thesis
    using sweep_survives_rejected_poll [OF r i0, where env = scenario_second_rejects
        and net = "\<lambda>k. Responded 200 (Some operational) 500"
        and e = "ErrorObject ''boom''"
        and pre = "[Fetch ''https://status.claude.com/api/v2/status.json'']"]
      sweep_survives_rejected_poll [OF r i1, where env = scenario_second_rejects
        and net = "\<lambda>k. Responded 200 (Some operational) 500"
        and e = "ErrorObject ''boom''"
        and pre = "[Fetch ''https://status.claude.com/api/v2/status.json'']"]
      sweep_survives_rejected_poll [OF r i2, where env = scenario_second_rejects
        and net = "\<lambda>k. Responded 200 (Some critical_outage) 300"
        and e = "ErrorObject ''boom''"
        and pre = "[Fetch ''https://status.claude.com/api/v2/status.json'']"]
      r p0 p1 p2 e0 e1 e2 u2 len
    by simp
qed

lemma sweep_reachable:
  "cfgs = toolConfigs \<Longrightarrow> reachable (tools s) \<Longrightarrow> reachable (tools (sweep_from cfgs env i s))"
proof (induction cfgs env i s rule: sweep_from.induct)
  case (1 cfgs env i s)
  show ?case
  proof (cases "i < length cfgs")
    case True
    have step: "sweep_from cfgs env i s = sweep_from cfgs env (i + 1) (sweep_iteration cfgs env i s)"
      using True by (subst sweep_from.simps) simp
    have "reachable (tools (sweep_iteration toolConfigs env i \<lparr>tools = tools s, trace = trace s\<rparr>))"
      using "1.prems" True by (intro reachable_iteration) simp_all
    moreover have "\<lparr>tools = tools s, trace = trace s\<rparr> = s"
      by (cases s) simp
    ultimately have "reachable (tools (sweep_iteration cfgs env i s))"
      using "1.prems"(1) by simp
    then show ?thesis
      unfolding step using "1.IH" [OF True "1.prems"(1)] by simp
  next
    case False
    then show ?thesis using "1.prems" by (simp add: sweep_from.simps)
  qed
qed

lemma checkAllToolsStatus_reachable:
  "reachable ts \<Longrightarrow> reachable (tools (checkAllToolsStatus env ts))"
  unfolding checkAllToolsStatus_def by (rule sweep_reachable) simp_all

subsection \<open>Telemetry of a poll\<close>

text \<open>
  C9 (amended): for every target whose poll returns an outcome, the iteration emits one
  status-update event with the new verdict, whether or not the verdict changed; an error
  line exactly when the new verdict is \<open>down\<close> or a diagnostic is present; and an incident
  report exactly when the new verdict is \<open>down\<close>.  The previous verdict appears only as
  an attribute of the incident report.
\<close>

theorem telemetry_of_one_poll:
  assumes r: "reachable ts" and i: "i < length toolConfigs" and p: "poll (env i) = PollRuns net"
    and res: "fst (checkToolStatus (toolConfigs ! i) net 0) = result"
    and l0: "(case latencyMs result of None \<Rightarrow> 0 | Some l \<Rightarrow> l) = latency0"
  shows "filter is_telemetry
           (trace (sweep_iteration toolConfigs env i \<lparr>tools = ts, trace = tr\<rparr>)) =
         filter is_telemetry tr @
         RecordCustomEvent (cid (toolConfigs ! i)) (cname (toolConfigs ! i)) (status result)
             latency0 (truthy (error result))
           # (if status result = Down \<or> truthy (error result) then
                ConsoleErrorOutcome (cname (toolConfigs ! i)) (cid (toolConfigs ! i)) (status result)
                    (error result) (latencyMs result)
                  # (if status result = Down then
                       [NoticeError (cname (toolConfigs ! i))
                          (js_or (error result) (JStr ''Unknown error''))
                          (cid (toolConfigs ! i)) (tstatus (ts ! i)) latency0 (error result)]
                     else [])
              else [])"
proof -
  have a: "aligned toolConfigs ts" using r by (rule reachable_aligned)
  have ids: "map tid ts = map cid toolConfigs" using a by (simp add: aligned_def)
  have fnd: "find (\<lambda>t. tid t = cid (toolConfigs ! i)) ts = Some (ts ! i)"
    using toolConfigs_distinct ids i by (rule find_aligned)
  show ?thesis
    unfolding sweep_iteration_def Let_def p
    using res l0
    by (simp add: split_beta fnd no_telemetry_in_poll updatedTool_def)
qed

theorem telemetry_of_one_poll_witness:
  "reachable (tools (checkAllToolsStatus scenario_all_503 (tools_init scenario_start)))
   \<and> poll (scenario_all_503 0) = PollRuns (\<lambda>k. Responded 503 None 80)
   \<and> tstatus (tools (checkAllToolsStatus scenario_all_503 (tools_init scenario_start)) ! 0) = Down
   \<and> filter is_telemetry
        (trace (sweep_iteration toolConfigs scenario_all_503 0
           \<lparr>tools = tools (checkAllToolsStatus scenario_all_503 (tools_init scenario_start)),
            trace = []\<rparr>)) =
      [RecordCustomEvent Chatgpt ''ChatGPT'' Down 80 True,
       ConsoleErrorOutcome ''ChatGPT'' Chatgpt Down (JStr ''Server error: 503'') (Some 80),
       NoticeError ''ChatGPT'' (JStr ''Server error: 503'') Chatgpt Down 80 (JStr ''Server error: 503'')]"
proof -
  have r: "reachable (tools (checkAllToolsStatus scenario_all_503 (tools_init scenario_start)))"
    by (intro checkAllToolsStatus_reachable reachable_init)
  have i0: "0 < length toolConfigs" by (simp add: toolConfigs_def)
  have p: "poll (scenario_all_503 0) = PollRuns (\<lambda>k. Responded 503 None 80)"
    by (simp add: scenario_all_503_def)
  have res: "fst (checkToolStatus (toolConfigs ! 0) (\<lambda>k. Responded 503 None 80) 0) =
      \<lparr>status = Down, latencyMs = Some 80, error = JStr ''Server error: 503''\<rparr>"
    by code_simp
  have l0: "(case latencyMs \<lparr>status = Down, latencyMs = Some 80, error = JStr ''Server error: 503''\<rparr>
             of None \<Rightarrow> 0 | Some l \<Rightarrow> l) = 80"
    by simp
  have old: "tstatus (tools (checkAllToolsStatus scenario_all_503 (tools_init scenario_start)) ! 0) = Down"
    by code_simp
  have c: "cid (toolConfigs ! 0) = Chatgpt" "cname (toolConfigs ! 0) = ''ChatGPT''"
    by (simp_all add: toolConfigs_def)
  show ?thesis
    using telemetry_of_one_poll [where env = scenario_all_503 and i = 0 and tr = "[]",
        OF r i0 p res l0] r p old c
    by (simp add: js_or_def)
qed

text \<open>
  C9, as stated, fails.  When every endpoint answers 503 in two sweeps in a row, the
  second sweep leaves every verdict \<open>down\<close> as it was and still writes an error line and
  sends an incident report for every target; and when the verdicts change from
  \<open>unknown\<close> to \<open>healthy\<close>, the sweep emits nothing but the per-poll status events, the
  same as in any later sweep where nothing changes.
\<close>

theorem transition_events_counterexample:
  "map tstatus (tools (checkAllToolsStatus scenario_all_503 (tools_init scenario_start))) =
     [Down, Down, Down]
   \<and> map tstatus (tools (checkAllToolsStatus scenario_all_503
        (tools (checkAllToolsStatus scenario_all_503 (tools_init scenario_start))))) =
     [Down, Down, Down]
   \<and> filter is_telemetry (trace (checkAllToolsStatus scenario_all_503
        (tools (checkAllToolsStatus scenario_all_503 (tools_init scenario_start))))) =
     [RecordCustomEvent Chatgpt ''ChatGPT'' Down 80 True,
      ConsoleErrorOutcome ''ChatGPT'' Chatgpt Down (JStr ''Server error: 503'') (Some 80),
      NoticeError ''ChatGPT'' (JStr ''Server error: 503'') Chatgpt Down 80 (JStr ''Server error: 503''),
      RecordCustomEvent Claude ''Claude'' Down 80 True,
      ConsoleErrorOutcome ''Claude'' Claude Down (JStr ''Server error: 503'') (Some 80),
      NoticeError ''Claude'' (JStr ''Server error: 503'') Claude Down 80 (JStr ''Server error: 503''),
      RecordCustomEvent Cursor ''Cursor'' Down 80 True,
      ConsoleErrorOutcome ''Cursor'' Cursor Down (JStr ''Server error: 503'') (Some 80),
      NoticeError ''Cursor'' (JStr ''Server error: 503'') Cursor Down 80 (JStr ''Server error: 503'')]
   \<and> map tstatus (tools_init scenario_start) = [Unknown, Unknown, Unknown]
   \<and> map tstatus (tools (checkAllToolsStatus scenario_all_operational (tools_init scenario_start))) =
     [Healthy, Healthy, Healthy]
   \<and> filter is_telemetry (trace (checkAllToolsStatus scenario_all_operational
        (tools_init scenario_start))) =
     [RecordCustomEvent Chatgpt ''ChatGPT'' Healthy 500 False,
      RecordCustomEvent Claude ''Claude'' Healthy 500 False,
      RecordCustomEvent Cursor ''Cursor'' Healthy 500 False]"
  by code_simp

lemma exactly_one:
  assumes "map tid ts = map cid toolConfigs" and "i < length toolConfigs"
  shows "length (filter (\<lambda>t. tid t = cid (toolConfigs ! i)) ts) = 1"
proof -
  obtain a b c where ts: "ts = [a, b, c]" "tid a = Chatgpt" "tid b = Claude" "tid c = Cursor"
    using assms(1) by (auto simp add: toolConfigs_def)
  have "i = 0 \<or> i = 1 \<or> i = 2" using assms(2) by (auto simp add: toolConfigs_def)
  then show ?thesis
    using ts by (auto simp add: toolConfigs_def)
qed

subsection \<open>The store\<close>

text \<open>
  C10: every store the process can hold has exactly one record per configured target,
  in registry order, with the target's identifier and display name.  The initial store
  has every verdict \<open>unknown\<close> and every latency null.  An update after a poll that ran
  replaces the target's record in place; an update after a caught failure replaces it by
  a copy in which only the verdict, the timestamp and the diagnostic differ, so that the
  identifier, the display name and the latency are unchanged.
\<close>

theorem store_one_record_per_target:
  assumes r: "reachable ts"
  shows "map tid ts = map cid toolConfigs \<and> map tname ts = map cname toolConfigs
       \<and> length ts = length toolConfigs \<and> distinct (map tid ts)
       \<and> (i < length toolConfigs \<longrightarrow>
            length (filter (\<lambda>t. tid t = cid (toolConfigs ! i)) ts) = 1)
       \<and> map tid (tools_init start) = map cid toolConfigs
       \<and> map tstatus (tools_init start) = [Unknown, Unknown, Unknown]
       \<and> map tlatencyMs (tools_init start) = [None, None, None]
       \<and> (i < length toolConfigs \<and> poll (env i) = PollRuns net \<longrightarrow>
            tools (sweep_iteration toolConfigs env i \<lparr>tools = ts, trace = tr\<rparr>) =
              ts[i := updatedTool (toolConfigs ! i) (fst (checkToolStatus (toolConfigs ! i) net 0))
                        (clock (env i))]
            \<and> tid (updatedTool (toolConfigs ! i) (fst (checkToolStatus (toolConfigs ! i) net 0))
                        (clock (env i))) = tid (ts ! i))
       \<and> (i < length toolConfigs \<and> poll (env i) = PollRejects pre e \<longrightarrow>
            tools (sweep_iteration toolConfigs env i \<lparr>tools = ts, trace = tr\<rparr>) =
              ts[i := (ts ! i)\<lparr>tstatus := Unknown, lastChecked := clock (env i),
                        terror := JStr (case e of ErrorObject m \<Rightarrow> m
                                                | NonError v \<Rightarrow> ''Unknown error'')\<rparr>]
            \<and> tid (tools (sweep_iteration toolConfigs env i \<lparr>tools = ts, trace = tr\<rparr>) ! i) =
                tid (ts ! i)
            \<and> tname (tools (sweep_iteration toolConfigs env i \<lparr>tools = ts, trace = tr\<rparr>) ! i) =
                tname (ts ! i)
            \<and> tlatencyMs (tools (sweep_iteration toolConfigs env i \<lparr>tools = ts, trace = tr\<rparr>) ! i) =
                tlatencyMs (ts ! i))"
proof -
  have a: "aligned toolConfigs ts" using r by (rule reachable_aligned)
  have ids: "map tid ts = map cid toolConfigs" and names: "map tname ts = map cname toolConfigs"
    using a by (simp_all add: aligned_def)
  have len: "length ts = length toolConfigs" using a by (rule aligned_length)
  have dist: "distinct (map tid ts)" using ids toolConfigs_distinct by simp
  have one: "i < length toolConfigs \<longrightarrow>
            length (filter (\<lambda>t. tid t = cid (toolConfigs ! i)) ts) = 1"
    using exactly_one [OF ids] by simp
  have init: "map tid (tools_init start) = map cid toolConfigs
       \<and> map tstatus (tools_init start) = [Unknown, Unknown, Unknown]
       \<and> map tlatencyMs (tools_init start) = [None, None, None]"
    by (simp add: tools_init_def toolConfigs_def)
  have idi: "i < length toolConfigs \<Longrightarrow> tid (ts ! i) = cid (toolConfigs ! i)"
    using ids len by (metis nth_map)
  have runs: "i < length toolConfigs \<and> poll (env i) = PollRuns net \<longrightarrow>
            tools (sweep_iteration toolConfigs env i \<lparr>tools = ts, trace = tr\<rparr>) =
              ts[i := updatedTool (toolConfigs ! i) (fst (checkToolStatus (toolConfigs ! i) net 0))
                        (clock (env i))]
            \<and> tid (updatedTool (toolConfigs ! i) (fst (checkToolStatus (toolConfigs ! i) net 0))
                        (clock (env i))) = tid (ts ! i)"
    using iteration_runs [of toolConfigs "\<lparr>tools = ts, trace = tr\<rparr>" i env net] toolConfigs_distinct
      ids idi
    by (simp add: updatedTool_def)
  have rej: "i < length toolConfigs \<and> poll (env i) = PollRejects pre e \<longrightarrow>
            tools (sweep_iteration toolConfigs env i \<lparr>tools = ts, trace = tr\<rparr>) =
              ts[i := (ts ! i)\<lparr>tstatus := Unknown, lastChecked := clock (env i),
                        terror := JStr (case e of ErrorObject m \<Rightarrow> m
                                                | NonError v \<Rightarrow> ''Unknown error'')\<rparr>]"
    using iteration_rejects [of toolConfigs "\<lparr>tools = ts, trace = tr\<rparr>" i env pre e] toolConfigs_distinct
      ids
    by (simp add: failedTool_def)
  show ?thesis
    using ids names len dist one init runs rej by (simp add: len)
qed

theorem store_one_record_per_target_witness:
  "reachable (tools_init scenario_start)
   \<and> map tid (tools_init scenario_start) = [Chatgpt, Claude, Cursor]
   \<and> poll (scenario_second_rejects 1) =
         PollRejects [Fetch ''https://status.claude.com/api/v2/status.json''] (ErrorObject ''boom'')
   \<and> poll (scenario_second_rejects 2) = PollRuns (\<lambda>k. Responded 200 (Some critical_outage) 300)
   \<and> map tid (tools (sweep_iteration toolConfigs scenario_second_rejects 1
          \<lparr>tools = tools_init scenario_start, trace = []\<rparr>)) = [Chatgpt, Claude, Cursor]
   \<and> tlatencyMs (tools (sweep_iteration toolConfigs scenario_second_rejects 1
          \<lparr>tools = tools_init scenario_start, trace = []\<rparr>) ! 1) = None
   \<and> map tid (tools (sweep_iteration toolConfigs scenario_second_rejects 2
          \<lparr>tools = tools_init scenario_start, trace = []\<rparr>)) = [Chatgpt, Claude, Cursor]"
proof -
  have r: "reachable (tools_init scenario_start)" by (rule reachable_init)
  have p1: "poll (scenario_second_rejects 1) =
         PollRejects [Fetch ''https://status.claude.com/api/v2/status.json''] (ErrorObject ''boom'')"
    and p2: "poll (scenario_second_rejects 2) = PollRuns (\<lambda>k. Responded 200 (Some critical_outage) 300)"
    by (simp_all add: scenario_second_rejects_def)
  have len: "length toolConfigs = 3" by (simp add: toolConfigs_def)
  have init: "tools_init scenario_start =
     [\<lparr>tid = Chatgpt, tname = ''ChatGPT'', tstatus = Unknown,
        lastChecked = ''2025-01-01T00:00:00.000Z'', tlatencyMs = None, terror = JUndefined\<rparr>,
      \<lparr>tid = Claude, tname = ''Claude'', tstatus = Unknown,
        lastChecked = ''2025-01-01T00:00:00.000Z'', tlatencyMs = None, terror = JUndefined\<rparr>,
      \<lparr>tid = Cursor, tname = ''Cursor'', tstatus = Unknown,
        lastChecked = ''2025-01-01T00:00:00.000Z'', tlatencyMs = None, terror = JUndefined\<rparr>]"
    by code_simp
  have ids: "map cid toolConfigs = [Chatgpt, Claude, Cursor]" by (simp add: toolConfigs_def)
  show ?thesis
    using store_one_record_per_target [OF r, where i = 1 and env = scenario_second_rejects
        and e = "ErrorObject ''boom''"
        and pre = "[Fetch ''https://status.claude.com/api/v2/status.json'']" and tr = "[]" and start = scenario_start
        and net = "\<lambda>k. Responded 200 (Some critical_outage) 300"]
      store_one_record_per_target [OF r, where i = 2 and env = scenario_second_rejects
        and e = "ErrorObject ''boom''"
        and pre = "[Fetch ''https://status.claude.com/api/v2/status.json'']" and tr = "[]" and start = scenario_start
        and net = "\<lambda>k. Responded 200 (Some critical_outage) 300"]
      r p1 p2 len ids
    by (simp add: init updatedTool_def)
qed

subsection \<open>Pacing between targets\<close>

lemma waits_and_requests_append [simp]:
  "waits_and_requests (xs @ ys) = waits_and_requests xs @ waits_and_requests ys"
  by (simp add: waits_and_requests_def)






end
